theory Spec2Isabelle
  imports Complex_Main "HOL-Library.Log_Nat"
begin

section \<open>JavaScript numbers\<close>

text \<open>
  A JavaScript number is an IEEE 754 double. A finite double is given by its exact
  value, a rational; an operation computes the exact result and rounds it to the
  nearest double, ties to the even significand (53 bits, the unit in the last place
  never below \<open>2\<^sup>-\<^sup>1\<^sup>0\<^sup>7\<^sup>4\<close>), and a result that rounds to \<open>2\<^sup>1\<^sup>0\<^sup>2\<^sup>4\<close> or beyond is an
  infinity. The sign of a zero is not kept.
\<close>

datatype number = Num rat | PosInfinity | NegInfinity | NaN

definition half_even :: "rat \<Rightarrow> int" where
  "half_even y =
     (let f = \<lfloor>y\<rfloor>; r = y - of_int f
      in if r < 1 / 2 then f else if 1 / 2 < r then f + 1 else if even f then f else f + 1)"

text \<open>
  The exponent of the unit in the last place of a positive value: with numerator
  \<open>p\<close> and denominator \<open>q\<close> the value lies between \<open>2 powi (k - 1)\<close> and
  \<open>2 powi (k + 1)\<close> for \<open>k = bitlen p - bitlen q\<close>.
\<close>

definition ulp_exponent :: "rat \<Rightarrow> int" where
  "ulp_exponent a =
     (let (p, q) = quotient_of a; k = bitlen p - bitlen q
      in max (if a < 2 powi k then k - 53 else k - 52) (- 1074))"

definition round_magnitude :: "rat \<Rightarrow> rat" where
  "round_magnitude a = (let e = ulp_exponent a in of_int (half_even (a / 2 powi e)) * 2 powi e)"

definition toNumber :: "rat \<Rightarrow> number" where
  "toNumber x =
     (let r = round_magnitude \<bar>x\<bar>
      in if 2 powi 1024 \<le> r then (if 0 < x then PosInfinity else NegInfinity)
         else Num (if 0 < x then r else - r))"

fun nadd :: "number \<Rightarrow> number \<Rightarrow> number" where
  "nadd (Num a) (Num b) = toNumber (a + b)"
| "nadd NaN y = NaN"
| "nadd x NaN = NaN"
| "nadd PosInfinity NegInfinity = NaN"
| "nadd NegInfinity PosInfinity = NaN"
| "nadd PosInfinity y = PosInfinity"
| "nadd x PosInfinity = PosInfinity"
| "nadd NegInfinity y = NegInfinity"
| "nadd x NegInfinity = NegInfinity"

fun nneg :: "number \<Rightarrow> number" where
  "nneg (Num a) = Num (- a)"
| "nneg PosInfinity = NegInfinity"
| "nneg NegInfinity = PosInfinity"
| "nneg NaN = NaN"

fun nmul :: "number \<Rightarrow> number \<Rightarrow> number" where
  "nmul (Num a) (Num b) = toNumber (a * b)"
| "nmul NaN y = NaN"
| "nmul x NaN = NaN"
| "nmul (Num a) y = (if a = 0 then NaN else if 0 < a then y else nneg y)"
| "nmul x (Num b) = (if b = 0 then NaN else if 0 < b then x else nneg x)"
| "nmul PosInfinity y = y"
| "nmul NegInfinity y = nneg y"

text \<open>
  \<open>Math.pow(10, -8)\<close>: the double nearest to \<open>10\<^sup>-\<^sup>8\<close>, the value of the literal
  \<open>1e-8\<close>.
\<close>

definition Math_pow_10_neg8 :: number where
  "Math_pow_10_neg8 = toNumber (1 / 10 ^ 8)"

section \<open>Data model\<close>

text \<open>
  The records follow the objects that \<^verbatim>\<open>src/lib/transaction.ts\<close> reads and
  builds. Heights, timestamps (milliseconds) and amounts (the ledger's integer base
  unit) are JavaScript numbers holding integers; they are modelled as \<open>int\<close>. The
  number that holds an amount is the double nearest to it, and the received amount
  is computed in doubles. \<open>AddressConfig\<close> has the fields that the two source files
  read.
\<close>

record TransactionAddress =
  address :: string
  amount :: int

record BlockContext =
  directoryBlockHeight :: int

record Transaction =
  idT :: string
  timestamp :: int
  totalInputs :: int
  factoidOutputs :: "TransactionAddress list"
  blockContext :: BlockContext

record AddressConfig =
  address :: string
  name :: string
  coinbase :: bool
  nonCoinbase :: bool
  currency :: string

record TransactionRow =
  address :: string
  timestamp :: int
  date :: string
  txhash :: string
  height :: int
  symbol :: string
  currency :: string
  receivedFCT :: number

text \<open>
  Values that the source throws or catches. The first group are JavaScript errors
  raised by the runtime and the libraries the configuration reader calls; the second
  group names the failures of the ledger client and of the store.
\<close>

datatype error =
    SystemError string string
  | YAMLException string
  | ValidationError string
  | TypeError string
  | RangeError string
  | Error string
  | UpstreamUnavailable
  | NotFound
  | DuplicateRecord
  | StoreWriteFailure

text \<open>One entry per call of the logger.\<close>

datatype log_entry =
    Debug_Saving string int
  | Error_FailedToSave error
  | Info_Fetching int int
  | Info_Scanning int
  | Info_ScanComplete
  | Error_Backfill error
  | Info_ReadingConfig string
  | Error_Message string

section \<open>The ISO rendering of an instant\<close>

text \<open>
  \<open>new Date(ms).toISOString()\<close> of the ECMAScript runtime: a time value beyond
  \<open>\<plusminus>8.64e15\<close> ms is an invalid date and \<open>toISOString\<close> throws a RangeError;
  otherwise the instant is rendered in UTC as \<open>YYYY-MM-DDTHH:mm:ss.sssZ\<close>, with a
  signed six-digit year outside 0..9999.
\<close>

fun pad :: "nat \<Rightarrow> nat \<Rightarrow> string" where
  "pad 0 k = []"
| "pad (Suc n) k = pad n (k div 10) @ [char_of (48 + k mod 10)]"

definition civil_of_days :: "int \<Rightarrow> int \<times> int \<times> int" where
  "civil_of_days z0 =
     (let z = z0 + 719468;
          era = z div 146097;
          doe = z mod 146097;
          yoe = (doe - doe div 1460 + doe div 36524 - doe div 146096) div 365;
          doy = doe - (365 * yoe + yoe div 4 - yoe div 100);
          mp = (5 * doy + 2) div 153;
          d = doy - (153 * mp + 2) div 5 + 1;
          m = (if mp < 10 then mp + 3 else mp - 9);
          y = yoe + era * 400 + (if m \<le> 2 then 1 else 0)
      in (y, m, d))"

definition year_string :: "int \<Rightarrow> string" where
  "year_string y =
     (if 0 \<le> y \<and> y \<le> 9999 then pad 4 (nat y)
      else (if y < 0 then ''-'' else ''+'') @ pad 6 (nat \<bar>y\<bar>))"

definition toISOString :: "int \<Rightarrow> error + string" where
  "toISOString ms =
     (if \<bar>ms\<bar> > 8640000000000000 then Inl (RangeError ''Invalid time value'')
      else
        let (y, m, d) = civil_of_days (ms div 86400000);
            t = ms mod 86400000
        in Inr (year_string y @ ''-'' @ pad 2 (nat m) @ ''-'' @ pad 2 (nat d) @ ''T''
                @ pad 2 (nat (t div 3600000)) @ '':''
                @ pad 2 (nat (t div 60000 mod 60)) @ '':''
                @ pad 2 (nat (t div 1000 mod 60)) @ ''.''
                @ pad 3 (nat (t mod 1000)) @ ''Z''))"

section \<open>src/lib/transaction.ts\<close>

text \<open>
  Modelled from the spec: \<open>toInteger\<close> of \<^verbatim>\<open>src/lib/utils.ts\<close>, which is not among
  the source files. The spec gives the record's timestamp as
  \<open>floor(transaction.timestampMillis / 1000)\<close>, so \<open>toInteger\<close> is the floor. The
  quotient is taken exactly: for a timestamp in the range of valid dates, the only
  ones for which a row is built, the double quotient has the same floor.
\<close>

definition toInteger :: "rat \<Rightarrow> int" where
  "toInteger x = \<lfloor>x\<rfloor>"

definition formatIncomeTransaction ::
  "Transaction \<Rightarrow> AddressConfig \<Rightarrow> number \<Rightarrow> error + TransactionRow" where
  "formatIncomeTransaction tx conf received =
     (case toISOString (Transaction.timestamp tx) of
        Inl e \<Rightarrow> Inl e
      | Inr isoDate \<Rightarrow>
          Inr \<lparr> TransactionRow.address = AddressConfig.address conf,
                TransactionRow.timestamp = toInteger (of_int (Transaction.timestamp tx) / 1000),
                date = isoDate,
                txhash = idT tx,
                height = directoryBlockHeight (blockContext tx),
                symbol = ''FCT'',
                TransactionRow.currency = AddressConfig.currency conf,
                receivedFCT = received \<rparr>)"

definition sumFCToutputs :: "Transaction \<Rightarrow> string \<Rightarrow> number" where
  "sumFCToutputs transaction addr =
     nmul (foldl (\<lambda>total current. nadd total (toNumber (of_int (amount current)))) (Num 0)
             (filter (\<lambda>outputs. TransactionAddress.address outputs = addr)
                (factoidOutputs transaction)))
          Math_pow_10_neg8"

text \<open>
  \<open>saveNewTransaction\<close>. The store is the object \<open>db\<close> of the source; its method
  \<open>insertUncommittedTransaction\<close> is passed as \<open>ins\<close>. The function is not \<open>async\<close>
  and returns what the insert returns without awaiting it, so a call of the insert
  ends in one of three ways: it returns with the row stored (\<open>Inserted\<close>, also for a
  promise that is fulfilled), it throws before it returns (\<open>Thrown\<close>), which the
  \<open>catch\<close> sees, or it returns a promise that is rejected (\<open>Rejected\<close>), which the
  \<open>catch\<close> does not see: the rejected promise is what \<open>saveNewTransaction\<close> returns.
  The result says how the call ends, with the store after it and the logger calls
  made.
\<close>

datatype 'db insert_result =
    Inserted 'db
  | Thrown error
  | Rejected error

datatype 'db save_result =
    Skipped
  | Saved 'db
  | ProcessExit int
  | Raised error
  | ReturnsRejected error

definition saveNewTransaction ::
  "(TransactionRow \<Rightarrow> 'db \<Rightarrow> 'db insert_result) \<Rightarrow> AddressConfig \<Rightarrow> 'db \<Rightarrow> Transaction
     \<Rightarrow> 'db save_result \<times> log_entry list" where
  "saveNewTransaction ins conf db tx =
     (let isCoinbase = (totalInputs tx = 0) in
      if (isCoinbase \<and> \<not> coinbase conf) \<or> (\<not> isCoinbase \<and> \<not> nonCoinbase conf)
      then (Skipped, [])
      else
        let received = sumFCToutputs tx (AddressConfig.address conf) in
        if received = Num 0 then (Skipped, [])
        else
          case formatIncomeTransaction tx conf received of
            Inl e \<Rightarrow> (Raised e, [])
          | Inr txRow \<Rightarrow>
              (let lg = [Debug_Saving (TransactionRow.address txRow) (height txRow)] in
               case ins txRow db of
                 Inserted db' \<Rightarrow> (Saved db', lg)
               | Thrown e \<Rightarrow> (ProcessExit 1, lg @ [Error_FailedToSave e])
               | Rejected e \<Rightarrow> (ReturnsRejected e, lg)))"

text \<open>
  \<open>emitNewTransactions\<close>. What the scan does to the outside is recorded as a trace:
  the logger calls, the calls of \<open>factom.cli.getDirectoryBlock\<close> (\<open>Fetch\<close>, with the
  height asked for) and the calls of \<open>factom.event.handleDirectoryBlock\<close>
  (\<open>Handle\<close>, with the block handed over). A call ends by returning, by
  \<open>process.exit\<close> or by an exception that reaches the caller.
\<close>

datatype 'blk event = Log log_entry | Fetch int | Handle 'blk

datatype 'a outcome = Returns 'a | Exits int | Throws error

record 'blk FactomCli =
  getHeights :: "error + int"
  getDirectoryBlock :: "int \<Rightarrow> error + 'blk"

text \<open>The \<open>for\<close> loop of lines 56 to 63, from \<open>i\<close> up to \<open>stopHeight\<close>.\<close>

function scan_loop ::
  "(int \<Rightarrow> error + 'blk) \<Rightarrow> int \<Rightarrow> int \<Rightarrow> (error + unit) \<times> 'blk event list" where
  "scan_loop fetch i stopHeight =
     (if i \<le> stopHeight then
        (let pre = (if i mod 1000 = 0 then [Log (Info_Scanning i)] else []) @ [Fetch i] in
         case fetch i of
           Inl e \<Rightarrow> (Inl e, pre)
         | Inr directoryBlock \<Rightarrow>
             (let (r, tr) = scan_loop fetch (i + 1) stopHeight
              in (r, pre @ [Handle directoryBlock] @ tr)))
      else (Inr (), []))"
  by pat_completeness auto
termination
  by (relation "measure (\<lambda>(fetch, i, stopHeight). nat (stopHeight + 1 - i))") auto

text \<open>The body of the \<open>try\<close> block; \<open>getMaxHeight\<close> is what \<open>db.getMaxHeight()\<close> gives.\<close>

definition emitNewTransactions_try ::
  "(error + int) \<Rightarrow> int \<Rightarrow> 'blk FactomCli \<Rightarrow> (error + unit) \<times> 'blk event list" where
  "emitNewTransactions_try getMaxHeight configStartHeight cli =
     (case getMaxHeight of
        Inl e \<Rightarrow> (Inl e, [])
      | Inr m \<Rightarrow>
          (let startHeight = (if m > configStartHeight then m else configStartHeight) in
           case getHeights cli of
             Inl e \<Rightarrow> (Inl e, [])
           | Inr stopHeight \<Rightarrow>
               (let (r, tr) = scan_loop (getDirectoryBlock cli) (startHeight + 1) stopHeight;
                    tr' = Log (Info_Fetching startHeight stopHeight) # tr
                in case r of
                     Inl e \<Rightarrow> (Inl e, tr')
                   | Inr u \<Rightarrow> (Inr (), tr' @ [Log Info_ScanComplete]))))"

definition emitNewTransactions ::
  "(error + int) \<Rightarrow> int \<Rightarrow> 'blk FactomCli \<Rightarrow> unit outcome \<times> 'blk event list" where
  "emitNewTransactions getMaxHeight configStartHeight cli =
     (case emitNewTransactions_try getMaxHeight configStartHeight cli of
        (Inr u, tr) \<Rightarrow> (Returns (), tr)
      | (Inl e, tr) \<Rightarrow> (Exits 1, tr @ [Log (Error_Backfill e)]))"

text \<open>The heights fetched and the blocks handled, read off a trace.\<close>

fun fetched :: "'blk event list \<Rightarrow> int list" where
  "fetched [] = []"
| "fetched (Fetch h # tr) = h # fetched tr"
| "fetched (ev # tr) = fetched tr"

fun handled :: "'blk event list \<Rightarrow> 'blk list" where
  "handled [] = []"
| "handled (Handle b # tr) = b # handled tr"
| "handled (ev # tr) = handled tr"

subsection \<open>The store\<close>




section \<open>src/lib/config.ts\<close>

record FactomdConfig =
  host :: string
  port :: int
  path :: string
  protocol :: string

record OptionsConfig =
  currency :: string
  startHeight :: int

record KeyConfig =
  cryptocompare :: string
  bitcoinTax :: bool
  bitcoinTaxSecret :: "string option"
  bitcoinTaxKey :: "string option"

text \<open>
  The value that \<open>Joi.validate\<close> returns for \<open>configSchema\<close>. In the schema,
  \<open>factomd\<close> and \<open>options\<close> have defaults and \<open>addresses\<close> is required, while
  \<open>keys\<close> is neither required nor defaulted, so a validated value may have none. In
  \<open>keySchema\<close> the secret and the key are optional strings.
\<close>

record ConfigValue =
  factomd :: FactomdConfig
  keys :: "KeyConfig option"
  addresses :: "AddressConfig list"
  options :: OptionsConfig

record Config =
  factomd :: FactomdConfig
  addresses :: "AddressConfig list"
  options :: OptionsConfig
  keys :: KeyConfig

text \<open>\<open>!s\<close> for an optional string: undefined and the empty string are falsy.\<close>

definition falsy :: "string option \<Rightarrow> bool" where
  "falsy s = (s = None \<or> s = Some [])"

fun message :: "error \<Rightarrow> string" where
  "message (SystemError c m) = m"
| "message (YAMLException m) = m"
| "message (ValidationError m) = m"
| "message (TypeError m) = m"
| "message (RangeError m) = m"
| "message (Error m) = m"
| "message UpstreamUnavailable = ''UpstreamUnavailable''"
| "message NotFound = ''NotFound''"
| "message DuplicateRecord = ''DuplicateRecord''"
| "message StoreWriteFailure = ''StoreWriteFailure''"

fun code :: "error \<Rightarrow> string option" where
  "code (SystemError c m) = Some c"
| "code e = None"

text \<open>
  The constructor of \<open>Config\<close>. The file system (\<open>fs.readFileSync\<close>), the YAML parser
  (\<open>yaml.safeLoad\<close>) and the validator (\<open>Joi.validate\<close> with \<open>configSchema\<close>, giving
  the value and the error, if any) are parameters. \<open>Config_try\<close> is the body of the
  \<open>try\<close> block.
\<close>

definition Config_try ::
  "(string \<Rightarrow> error + string) \<Rightarrow> (string \<Rightarrow> error + 'y) \<Rightarrow> ('y \<Rightarrow> ConfigValue \<times> error option)
     \<Rightarrow> string \<Rightarrow> error + Config" where
  "Config_try readFileSync safeLoad validate p =
     (case readFileSync p of
        Inl e \<Rightarrow> Inl e
      | Inr yamlString \<Rightarrow>
          (case safeLoad yamlString of
             Inl e \<Rightarrow> Inl e
           | Inr config \<Rightarrow>
               (case validate config of
                  (val, Some e) \<Rightarrow> Inl e
                | (val, None) \<Rightarrow>
                    (case ConfigValue.keys val of
                       None \<Rightarrow> Inl (TypeError ''Cannot read property bitcoinTax of undefined'')
                     | Some k \<Rightarrow>
                         if (bitcoinTax k \<and> falsy (bitcoinTaxSecret k))
                            \<or> (bitcoinTax k \<and> falsy (bitcoinTaxKey k))
                         then Inl (Error ''Must provide bitcoin.tax secret and key when bitoinTax true'')
                         else Inr \<lparr> Config.factomd = ConfigValue.factomd val,
                                    Config.addresses = ConfigValue.addresses val,
                                    Config.options = ConfigValue.options val,
                                    Config.keys = k \<rparr>))))"

definition Config_new ::
  "(string \<Rightarrow> error + string) \<Rightarrow> (string \<Rightarrow> error + 'y) \<Rightarrow> ('y \<Rightarrow> ConfigValue \<times> error option)
     \<Rightarrow> string \<Rightarrow> Config outcome \<times> log_entry list" where
  "Config_new readFileSync safeLoad validate p =
     (case Config_try readFileSync safeLoad validate p of
        Inr c \<Rightarrow> (Returns c, [Info_ReadingConfig p])
      | Inl e \<Rightarrow>
          (Exits 1,
           [Info_ReadingConfig p, Error_Message ''Unable to load config'', Error_Message (message e)]
           @ (if code e = Some ''ENOENT''
              then [Error_Message ''Did you init the config? See --help for more info.'']
              else [])))"

section \<open>Example inputs\<close>

text \<open>
  A configured address that records coinbase receipts only, a coinbase transaction of
  block 9 with two outputs to that address and one to another, and the row the
  transaction gives for the address.
\<close>

definition example_conf :: AddressConfig where
  "example_conf =
     \<lparr> AddressConfig.address = ''FA1'', name = ''main'', coinbase = True,
       nonCoinbase = False, AddressConfig.currency = ''USD'' \<rparr>"

definition example_out1 :: TransactionAddress where
  "example_out1 = \<lparr> TransactionAddress.address = ''FA1'', amount = 150000000 \<rparr>"

definition example_out2 :: TransactionAddress where
  "example_out2 = \<lparr> TransactionAddress.address = ''FA1'', amount = 50000000 \<rparr>"

definition example_tx :: Transaction where
  "example_tx =
     \<lparr> idT = ''tx1'', Transaction.timestamp = 1577836800123, totalInputs = 0,
       factoidOutputs =
         [example_out1, \<lparr> TransactionAddress.address = ''FA2'', amount = 7 \<rparr>, example_out2],
       blockContext = \<lparr> directoryBlockHeight = 9 \<rparr> \<rparr>"

definition example_row :: TransactionRow where
  "example_row =
     \<lparr> TransactionRow.address = ''FA1'', TransactionRow.timestamp = 1577836800,
       date = ''2020-01-01T00:00:00.123Z'', txhash = ''tx1'', height = 9, symbol = ''FCT'',
       TransactionRow.currency = ''USD'', receivedFCT = Num 2 \<rparr>"

text \<open>The example transaction with a single output, of 3 base units.\<close>

definition example_tx_small :: Transaction where
  "example_tx_small =
     example_tx \<lparr> factoidOutputs := [\<lparr> TransactionAddress.address = ''FA1'', amount = 3 \<rparr>] \<rparr>"

text \<open>A store that accepts every row.\<close>

definition append_store :: "TransactionRow \<Rightarrow> TransactionRow list \<Rightarrow> TransactionRow list insert_result" where
  "append_store txRow rows = Inserted (rows @ [txRow])"

text \<open>
  A ledger client whose tip is 103 and whose block at a height is the height itself;
  the same client with the block at 102 not found.
\<close>

definition example_cli :: "int FactomCli" where
  "example_cli = \<lparr> getHeights = Inr 103, getDirectoryBlock = (\<lambda>h. Inr h) \<rparr>"

definition example_cli_notfound :: "int FactomCli" where
  "example_cli_notfound =
     \<lparr> getHeights = Inr 103,
       getDirectoryBlock = (\<lambda>h. if h = 102 then Inl NotFound else Inr h) \<rparr>"

text \<open>A validated configuration value without a \<open>keys\<close> section, and one with it.\<close>

definition example_value_nokeys :: ConfigValue where
  "example_value_nokeys =
     \<lparr> ConfigValue.factomd = \<lparr> host = ''api.factomd.net'', port = 443, path = ''/v2'', protocol = ''https'' \<rparr>,
       ConfigValue.keys = None,
       ConfigValue.addresses = [example_conf],
       ConfigValue.options = \<lparr> OptionsConfig.currency = ''USD'', startHeight = 143400 \<rparr> \<rparr>"

definition example_keys :: KeyConfig where
  "example_keys =
     \<lparr> cryptocompare = ''k'', bitcoinTax = False, bitcoinTaxSecret = None, bitcoinTaxKey = None \<rparr>"

definition example_value :: ConfigValue where
  "example_value = example_value_nokeys \<lparr> ConfigValue.keys := Some example_keys \<rparr>"

section \<open>Auxiliary facts\<close>

declare scan_loop.simps [simp del]

lemma fetched_append: "fetched (xs @ ys) = fetched xs @ fetched ys"
  by (induction xs rule: fetched.induct) auto

lemma handled_append: "handled (xs @ ys) = handled xs @ handled ys"
  by (induction xs rule: handled.induct) auto

lemma scan_loop_past: "stopHeight < i \<Longrightarrow> scan_loop fetch i stopHeight = (Inr (), [])"
  by (simp add: scan_loop.simps)

text \<open>A pass in which every fetch succeeds.\<close>

lemma scan_loop_ok:
  "(\<forall>h. i \<le> h \<and> h \<le> stopHeight \<longrightarrow> fetch h = Inr (blk h)) \<Longrightarrow>
     fst (scan_loop fetch i stopHeight) = Inr ()
     \<and> fetched (snd (scan_loop fetch i stopHeight)) = [i..stopHeight]
     \<and> handled (snd (scan_loop fetch i stopHeight)) = map blk [i..stopHeight]"
proof (induction fetch i stopHeight rule: scan_loop.induct)
  case (1 fetch i stopHeight)
  show ?case
  proof (cases "i \<le> stopHeight")
    case False
    then show ?thesis by (simp add: scan_loop.simps)
  next
    case True
    with "1.prems" have f: "fetch i = Inr (blk i)" by simp
    have ih: "fst (scan_loop fetch (i + 1) stopHeight) = Inr ()
       \<and> fetched (snd (scan_loop fetch (i + 1) stopHeight)) = [i + 1..stopHeight]
       \<and> handled (snd (scan_loop fetch (i + 1) stopHeight)) = map blk [i + 1..stopHeight]"
      using "1.IH"[OF True refl f] "1.prems" by simp
    have up: "[i..stopHeight] = i # [i + 1..stopHeight]"
      using True by (simp add: upto_rec1)
    show ?thesis
      using True f ih up
      by (simp add: scan_loop.simps[of fetch i stopHeight] fetched_append handled_append
          case_prod_beta)
  qed
qed

text \<open>A pass whose first failing fetch is at height \<open>h\<close>.\<close>

lemma scan_loop_fail:
  "i \<le> h \<Longrightarrow> h \<le> stopHeight \<Longrightarrow> (\<forall>k. i \<le> k \<and> k < h \<longrightarrow> fetch k = Inr (blk k)) \<Longrightarrow>
   fetch h = Inl e \<Longrightarrow>
     fst (scan_loop fetch i stopHeight) = Inl e
     \<and> fetched (snd (scan_loop fetch i stopHeight)) = [i..h]
     \<and> handled (snd (scan_loop fetch i stopHeight)) = map blk [i..h - 1]"
proof (induction fetch i stopHeight rule: scan_loop.induct)
  case (1 fetch i stopHeight)
  have le: "i \<le> stopHeight" using "1.prems" by simp
  show ?case
  proof (cases "i = h")
    case True
    then show ?thesis
      using le "1.prems" by (simp add: scan_loop.simps[of fetch h stopHeight])
  next
    case False
    with "1.prems" have lt: "i < h" by simp
    with "1.prems" have f: "fetch i = Inr (blk i)" by simp
    have ih: "fst (scan_loop fetch (i + 1) stopHeight) = Inl e
       \<and> fetched (snd (scan_loop fetch (i + 1) stopHeight)) = [i + 1..h]
       \<and> handled (snd (scan_loop fetch (i + 1) stopHeight)) = map blk [i + 1..h - 1]"
      using "1.IH"[OF le refl f] "1.prems" lt by simp
    have up: "[i..h] = i # [i + 1..h]" "[i..h - 1] = i # [i + 1..h - 1]"
      using lt by (simp_all add: upto_rec1)
    show ?thesis
      using le f ih up
      by (simp add: scan_loop.simps[of fetch i stopHeight] fetched_append handled_append
          case_prod_beta)
  qed
qed

lemma emit_fetch_failure:
  assumes tip: "getHeights cli = Inr t"
    and h: "max m s < h" "h \<le> t"
    and ok: "\<forall>k. max m s < k \<and> k < h \<longrightarrow> getDirectoryBlock cli k = Inr (blk k)"
    and bad: "getDirectoryBlock cli h = Inl e"
  shows "fst (emitNewTransactions (Inr m) s cli) = Exits 1
         \<and> fetched (snd (emitNewTransactions (Inr m) s cli)) = [max m s + 1..h]
         \<and> handled (snd (emitNewTransactions (Inr m) s cli)) = map blk [max m s + 1..h - 1]
         \<and> last (snd (emitNewTransactions (Inr m) s cli)) = Log (Error_Backfill e)"
proof -
  have st: "(if s < m then m else s) = max m s" by (simp add: max_def)
  have "\<forall>k. max m s + 1 \<le> k \<and> k < h \<longrightarrow> getDirectoryBlock cli k = Inr (blk k)"
  proof (intro allI impI)
    fix k assume "max m s + 1 \<le> k \<and> k < h"
    then have "max m s < k \<and> k < h" by linarith
    with ok show "getDirectoryBlock cli k = Inr (blk k)" by blast
  qed
  from scan_loop_fail[OF _ h(2) this bad] h(1)
  have l: "fst (scan_loop (getDirectoryBlock cli) (max m s + 1) t) = Inl e"
    "fetched (snd (scan_loop (getDirectoryBlock cli) (max m s + 1) t)) = [max m s + 1..h]"
    "handled (snd (scan_loop (getDirectoryBlock cli) (max m s + 1) t)) = map blk [max m s + 1..h - 1]"
    by simp_all
  obtain r tr where rt: "scan_loop (getDirectoryBlock cli) (max m s + 1) t = (r, tr)"
    by (cases "scan_loop (getDirectoryBlock cli) (max m s + 1) t")
  with l have r: "r = Inl e" and ftr: "fetched tr = [max m s + 1..h]"
    and htr: "handled tr = map blk [max m s + 1..h - 1]" by simp_all
  have e: "emitNewTransactions (Inr m) s cli
            = (Exits 1, Log (Info_Fetching (max m s) t) # tr @ [Log (Error_Backfill e)])"
    by (simp add: emitNewTransactions_def emitNewTransactions_try_def tip st rt r)
  show ?thesis
    using e ftr htr by (simp add: fetched_append handled_append)
qed

subsection \<open>Rounding\<close>

text \<open>
  The rounding error of a value in the normal range is at most half a unit in the
  last place, and an integer of at most 53 bits is a double.
\<close>

lemma half_even_error: "\<bar>of_int (half_even y) - y\<bar> \<le> 1 / 2"
proof -
  have "of_int \<lfloor>y\<rfloor> \<le> y" "y < of_int \<lfloor>y\<rfloor> + 1" by linarith+
  then show ?thesis
    by (auto simp: half_even_def Let_def abs_le_iff)
qed

lemma half_even_of_int: "half_even (of_int k) = k"
  by (simp add: half_even_def)

lemma pow2_of_nat: "(2::rat) ^ nat b = 2 powi b" if "0 \<le> b"
  using that by (simp add: power_int_def)

lemma quotient_bounds:
  assumes "0 < a" and "quotient_of a = (p, q)"
  shows "2 powi (bitlen p - bitlen q - 1) \<le> a" and "a < 2 powi (bitlen p - bitlen q + 1)"
proof -
  have q: "0 < q" using assms(2) by (rule quotient_of_denom_pos)
  have a: "a = of_int p / of_int q" using assms(2) by (rule quotient_of_div)
  have p: "0 < p"
    using assms(1) q by (simp add: a zero_less_divide_iff)
  from bitlen_bounds[OF p] have bp: "2 ^ nat (bitlen p - 1) \<le> p" "p < 2 ^ nat (bitlen p)" by simp_all
  from bitlen_bounds[OF q] have bq: "2 ^ nat (bitlen q - 1) \<le> q" "q < 2 ^ nat (bitlen q)" by simp_all
  have p1: "1 \<le> bitlen p" using p bitlen_eq_zero_iff[of p] bitlen_nonneg[of p] by linarith
  have q1: "1 \<le> bitlen q" using q bitlen_eq_zero_iff[of q] bitlen_nonneg[of q] by linarith
  have "(of_int (2 ^ nat (bitlen p - 1)) :: rat) \<le> of_int p" using bp(1) by (simp only: of_int_le_iff)
  then have lp: "2 powi (bitlen p - 1) \<le> (of_int p :: rat)"
    using p1 by (simp add: pow2_of_nat)
  have "(of_int p :: rat) < of_int (2 ^ nat (bitlen p))" using bp(2) by (simp only: of_int_less_iff)
  then have up: "(of_int p :: rat) < 2 powi bitlen p"
    using p1 by (simp add: pow2_of_nat)
  have "(of_int (2 ^ nat (bitlen q - 1)) :: rat) \<le> of_int q" using bq(1) by (simp only: of_int_le_iff)
  then have lq: "2 powi (bitlen q - 1) \<le> (of_int q :: rat)"
    using q1 by (simp add: pow2_of_nat)
  have "(of_int q :: rat) < of_int (2 ^ nat (bitlen q))" using bq(2) by (simp only: of_int_less_iff)
  then have uq: "(of_int q :: rat) < 2 powi bitlen q"
    using q1 by (simp add: pow2_of_nat)
  have qpos: "(0::rat) < of_int q" using q by simp
  have ppos: "(0::rat) < of_int p" using p by simp
  have eq1: "bitlen p - bitlen q - 1 = (bitlen p - 1) - bitlen q" by simp
  have eq2: "bitlen p - bitlen q + 1 = bitlen p - (bitlen q - 1)" by simp
  have "2 powi (bitlen p - bitlen q - 1) = 2 powi (bitlen p - 1) / (2 powi bitlen q :: rat)"
    unfolding eq1 by (rule power_int_diff) simp
  also have "\<dots> \<le> of_int p / 2 powi bitlen q"
    using lp by (simp add: divide_right_mono)
  also have "\<dots> \<le> of_int p / of_int q"
    using uq qpos ppos by (simp add: frac_le)
  finally show "2 powi (bitlen p - bitlen q - 1) \<le> a" by (simp add: a)
  have "a = of_int p / of_int q" by (rule a)
  also have "\<dots> < 2 powi bitlen p / of_int q"
    using up qpos by (simp add: divide_strict_right_mono)
  also have "\<dots> \<le> 2 powi bitlen p / 2 powi (bitlen q - 1)"
    using lq by (simp add: frac_le)
  also have "\<dots> = 2 powi (bitlen p - bitlen q + 1)"
    unfolding eq2 by (rule power_int_diff[symmetric]) simp
  finally show "a < 2 powi (bitlen p - bitlen q + 1)" .
qed

lemma ulp_exponent_bounds:
  assumes "0 < a"
  shows "a < 2 powi (ulp_exponent a + 53)"
    and "2 powi (- 1022) \<le> a \<Longrightarrow> 2 powi (ulp_exponent a + 52) \<le> a"
proof -
  obtain p q where pq: "quotient_of a = (p, q)" by (cases "quotient_of a")
  define k where "k = bitlen p - bitlen q"
  define e0 where "e0 = (if a < 2 powi k then k - 53 else k - 52)"
  have e: "ulp_exponent a = max e0 (- 1074)"
    by (simp add: ulp_exponent_def pq k_def e0_def)
  from quotient_bounds[OF assms pq]
  have lo: "2 powi (k - 1) \<le> a" and hi: "a < 2 powi (k + 1)" by (simp_all add: k_def)
  have hi0: "a < 2 powi (e0 + 53)"
  proof (cases "a < 2 powi k")
    case True
    then show ?thesis by (simp add: e0_def)
  next
    case False
    then have "k + 1 = e0 + 53" by (simp add: e0_def)
    with hi show ?thesis by (simp only:)
  qed
  have lo0: "2 powi (e0 + 52) \<le> a"
  proof (cases "a < 2 powi k")
    case True
    then have "k - 1 = e0 + 52" by (simp add: e0_def)
    with lo show ?thesis by (simp only:)
  next
    case False
    then show ?thesis by (simp add: e0_def not_less)
  qed
  have mono: "(2::rat) powi i \<le> 2 powi j" if "i \<le> j" for i j
    using that by (intro power_int_increasing) simp_all
  have "2 powi (e0 + 53) \<le> (2::rat) powi (ulp_exponent a + 53)"
    by (rule mono) (simp add: e)
  with hi0 show "a < 2 powi (ulp_exponent a + 53)" by simp
  show "2 powi (ulp_exponent a + 52) \<le> a" if n: "2 powi (- 1022) \<le> a"
  proof -
    have "(2::rat) powi (- 1022) < 2 powi (e0 + 53)" using n hi0 by simp
    then have "- 1022 < e0 + 53"
      using mono[of "e0 + 53" "- 1022"] by (cases "- 1022 < e0 + 53") simp_all
    then have "ulp_exponent a = e0" by (simp add: e)
    with lo0 show ?thesis by simp
  qed
qed


lemma round_magnitude_error:
  assumes "2 powi (- 1022) \<le> a"
  shows "\<bar>round_magnitude a - a\<bar> \<le> a / 2 ^ 53"
proof -
  have pos: "0 < a" using assms zero_less_power_int[of "2::rat" "- 1022"] by linarith
  define e where "e = ulp_exponent a"
  define u where "u = (2::rat) powi e"
  have u: "0 < u" by (simp add: u_def)
  have r: "round_magnitude a = of_int (half_even (a / u)) * u"
    by (simp add: round_magnitude_def Let_def e_def u_def)
  have "round_magnitude a - a = (of_int (half_even (a / u)) - a / u) * u"
    using u by (simp add: r left_diff_distrib)
  then have "\<bar>round_magnitude a - a\<bar> = \<bar>of_int (half_even (a / u)) - a / u\<bar> * u"
    using u by (simp add: abs_mult abs_of_pos)
  also have "\<dots> \<le> (1 / 2) * u"
    using half_even_error[of "a / u"] u by (intro mult_right_mono) simp_all
  finally have b: "\<bar>round_magnitude a - a\<bar> \<le> u / 2" by simp
  have "(2::rat) powi (e + 52) = u * 2 ^ 52"
    by (simp add: u_def power_int_add)
  with ulp_exponent_bounds(2)[OF pos assms] have "u * 2 ^ 52 \<le> a" by (simp add: e_def)
  then have "u / 2 \<le> a / 2 ^ 53" by simp
  with b show ?thesis by linarith
qed

lemma toNumber_error:
  assumes "2 powi (- 1022) \<le> x" and "x < 2 powi 1023"
  shows "\<exists>r. toNumber x = Num r \<and> \<bar>r - x\<bar> \<le> x / 2 ^ 53"
proof -
  have pos: "0 < x" using assms(1) zero_less_power_int[of "2::rat" "- 1022"] by linarith
  from round_magnitude_error[OF assms(1)]
  have e: "\<bar>round_magnitude x - x\<bar> \<le> x / 2 ^ 53" .
  have "x / 2 ^ 53 \<le> x" using pos by (simp add: field_simps)
  with e have "round_magnitude x \<le> 2 * x" by linarith
  also have "\<dots> < 2 * 2 powi 1023" using assms(2) by simp
  also have "\<dots> = (2::rat) powi 1024" by (simp add: power_int_def)
  finally have "\<not> 2 powi 1024 \<le> round_magnitude x" by simp
  then have "toNumber x = Num (round_magnitude x)"
    using pos by (simp add: toNumber_def Let_def abs_of_pos)
  with e show ?thesis by simp
qed

lemma toNumber_0: "toNumber 0 = Num 0"
  by code_simp

lemma toNumber_of_int:
  assumes "0 \<le> n" and "n \<le> 2 ^ 53"
  shows "toNumber (of_int n) = Num (of_int n)"
proof (cases "n = 0")
  case True
  then show ?thesis by (simp add: toNumber_0)
next
  case False
  with assms have n: "1 \<le> n" by simp
  define a where "a = (of_int n :: rat)"
  have a1: "1 \<le> a" using n by (simp add: a_def)
  have pos: "0 < a" using a1 by simp
  have "(2::rat) powi (- 1022) \<le> 1" by (simp add: power_int_def field_simps)
  with a1 have lo: "2 powi (- 1022) \<le> a" by simp
  define e where "e = ulp_exponent a"
  have up: "a \<le> 2 ^ 53"
    using assms(2) unfolding a_def by (metis of_int_le_iff of_int_numeral of_int_power)
  have le: "2 powi (e + 52) \<le> a" using ulp_exponent_bounds(2)[OF pos lo] by (simp add: e_def)
  have mono: "(2::rat) powi i \<le> 2 powi j" if "i \<le> j" for i j
    using that by (intro power_int_increasing) simp_all
  have e1: "e \<le> 1"
  proof (rule ccontr)
    assume "\<not> e \<le> 1"
    then have "54 \<le> e + 52" by simp
    from mono[OF this] have "(2::rat) ^ 54 \<le> 2 powi (e + 52)" by (simp add: power_int_def)
    with le up show False by simp
  qed
  have "\<exists>j. a / 2 powi e = of_int j"
  proof (cases "e \<le> 0")
    case True
    then have "a / 2 powi e = of_int (n * 2 ^ nat (- e))"
      by (simp add: a_def power_int_def field_simps)
    then show ?thesis ..
  next
    case False
    with e1 have e: "e = 1" by simp
    with le have "2 ^ 53 \<le> a" by (simp add: power_int_def)
    with up have "a = 2 ^ 53" by simp
    then have "a / 2 powi e = of_int (2 ^ 52)" by (simp add: e)
    then show ?thesis ..
  qed
  then obtain j where j: "a / 2 powi e = of_int j" ..
  have "round_magnitude a = of_int j * 2 powi e"
    by (simp add: round_magnitude_def Let_def e_def[symmetric] j half_even_of_int)
  also have "\<dots> = a" using j by (simp add: field_simps)
  finally have r: "round_magnitude a = a" .
  have "a < 2 powi 1024"
  proof -
    have "(2::rat) ^ 53 < 2 powi 1024" by (simp add: power_int_def)
    with up show ?thesis by simp
  qed
  then show ?thesis
    using pos r by (simp add: toNumber_def Let_def abs_of_pos a_def[symmetric])
qed

lemma Math_pow_value: "Math_pow_10_neg8 = Num (3022314549036573 / 2 ^ 78)"
  unfolding Math_pow_10_neg8_def by code_simp

text \<open>Non-negative amounts whose total is at most \<open>2\<^sup>5\<^sup>3\<close> are added without rounding.\<close>

lemma foldl_nadd_exact:
  assumes "\<forall>out \<in> set xs. 0 \<le> amount out" and "0 \<le> acc"
    and "acc + sum_list (map amount xs) \<le> 2 ^ 53"
  shows "foldl (\<lambda>total current. nadd total (toNumber (of_int (amount current))))
           (Num (of_int acc)) xs
         = Num (of_int (acc + sum_list (map amount xs)))"
  using assms
proof (induction xs arbitrary: acc)
  case Nil
  then show ?case by simp
next
  case (Cons x xs)
  have nn: "0 \<le> sum_list (map amount xs)"
    using Cons.prems(1) by (intro sum_list_nonneg) auto
  have x0: "0 \<le> amount x" using Cons.prems(1) by simp
  have x1: "amount x \<le> 2 ^ 53" using Cons.prems(2,3) nn by simp
  have s0: "0 \<le> acc + amount x" using Cons.prems(2) x0 by simp
  have s1: "acc + amount x \<le> 2 ^ 53" using Cons.prems(3) nn by simp
  have "nadd (Num (of_int acc)) (toNumber (of_int (amount x)))
          = toNumber (of_int (acc + amount x))"
    by (simp add: toNumber_of_int[OF x0 x1])
  also have "\<dots> = Num (of_int (acc + amount x))"
    by (rule toNumber_of_int[OF s0 s1])
  finally have st: "nadd (Num (of_int acc)) (toNumber (of_int (amount x)))
          = Num (of_int (acc + amount x))" .
  have "\<forall>out \<in> set xs. 0 \<le> amount out" using Cons.prems(1) by simp
  moreover have "acc + amount x + sum_list (map amount xs) \<le> 2 ^ 53"
    using Cons.prems(3) by (simp add: add.assoc)
  ultimately show ?case
    using Cons.IH[OF _ s0] by (simp add: st add.assoc)
qed

lemma sumFCToutputs_exact:
  assumes "\<forall>out \<in> set (filter (\<lambda>out. TransactionAddress.address out = a) (factoidOutputs tx)).
             0 \<le> amount out"
    and "sum_list (map amount
           (filter (\<lambda>out. TransactionAddress.address out = a) (factoidOutputs tx))) \<le> 2 ^ 53"
  shows "sumFCToutputs tx a =
           toNumber (of_int (sum_list (map amount
               (filter (\<lambda>out. TransactionAddress.address out = a) (factoidOutputs tx))))
             * (3022314549036573 / 2 ^ 78))"
proof -
  have "foldl (\<lambda>total current. nadd total (toNumber (of_int (amount current))))
           (Num (of_int 0)) (filter (\<lambda>out. TransactionAddress.address out = a) (factoidOutputs tx))
         = Num (of_int (0 + sum_list (map amount
             (filter (\<lambda>out. TransactionAddress.address out = a) (factoidOutputs tx)))))"
    by (rule foldl_nadd_exact) (use assms in simp_all)
  then show ?thesis
    by (simp add: sumFCToutputs_def Math_pow_value)
qed

text \<open>
  The product of a positive integer of at most 53 bits with the double \<open>1e-8\<close> is a
  positive double within a relative error of \<open>2\<^sup>-\<^sup>5\<^sup>1\<close> of the integer times \<open>10\<^sup>-\<^sup>8\<close>.
\<close>

lemma scaled_error:
  assumes "1 \<le> n" and "n \<le> 2 ^ 53"
  shows "\<exists>r. toNumber (of_int n * (3022314549036573 / 2 ^ 78)) = Num r
           \<and> 0 < r
           \<and> \<bar>r - of_int n / 10 ^ 8\<bar> \<le> (of_int n / 10 ^ 8) / 2 ^ 51"
proof -
  define c :: rat where "c = 3022314549036573 / 2 ^ 78"
  define t :: rat where "t = of_int n / 10 ^ 8"
  define x :: rat where "x = of_int n * c"
  have n1: "(1::rat) \<le> of_int n" using assms(1) by simp
  have n2: "(of_int n :: rat) \<le> 2 ^ 53"
    using assms(2) by (metis of_int_le_iff of_int_numeral of_int_power)
  have c0: "0 < c" by (simp add: c_def)
  have t0: "0 < t" using n1 by (simp add: t_def)
  have cerr: "\<bar>c - 1 / 10 ^ 8\<bar> \<le> (1 / 10 ^ 8) / 2 ^ 53"
    by (simp add: c_def)
  have "x - t = of_int n * (c - 1 / 10 ^ 8)"
    by (simp add: x_def t_def right_diff_distrib)
  then have "\<bar>x - t\<bar> = of_int n * \<bar>c - 1 / 10 ^ 8\<bar>"
    using n1 by (simp add: abs_mult)
  also have "\<dots> \<le> of_int n * ((1 / 10 ^ 8) / 2 ^ 53)"
    using cerr n1 by (intro mult_left_mono) simp_all
  also have "\<dots> = t / 2 ^ 53" by (simp add: t_def)
  finally have xt: "\<bar>x - t\<bar> \<le> t / 2 ^ 53" .
  have clo: "2 powi (- 1022) \<le> c"
    by (simp add: c_def power_int_def field_simps)
  have "c \<le> x" using n1 c0 by (simp add: x_def)
  with clo have lo: "2 powi (- 1022) \<le> x" by simp
  have "x \<le> 2 ^ 53 * c" using n2 c0 by (simp add: x_def)
  also have "\<dots> < 2 powi 1023" by (simp add: c_def power_int_def)
  finally have hi: "x < 2 powi 1023" .
  from toNumber_error[OF lo hi] obtain r where r: "toNumber x = Num r"
    and rx: "\<bar>r - x\<bar> \<le> x / 2 ^ 53" by blast
  have x0: "0 < x" using n1 c0 by (simp add: x_def)
  have "x / 2 ^ 53 < x" using x0 by (simp add: field_simps)
  with rx have rpos: "0 < r" by linarith
  have "t / 2 ^ 53 \<le> t" using t0 by (simp add: field_simps)
  with xt have x2: "x \<le> 2 * t" by linarith
  have "x / 2 ^ 53 \<le> (2 * t) / 2 ^ 53" using x2 by (rule divide_right_mono) simp
  with rx xt have "\<bar>r - t\<bar> \<le> (2 * t) / 2 ^ 53 + t / 2 ^ 53" by linarith
  also have "\<dots> = 3 * t / 2 ^ 53" by simp
  also have "\<dots> \<le> t / 2 ^ 51" using t0 by (simp add: field_simps)
  finally have "\<bar>r - t\<bar> \<le> t / 2 ^ 51" .
  with r rpos show ?thesis by (auto simp: x_def c_def t_def)
qed

text \<open>Facts about the example inputs.\<close>

lemma example_iso: "toISOString 1577836800123 = Inr ''2020-01-01T00:00:00.123Z''"
  by code_simp

lemma example_product: "toNumber (of_int 200000000 * (3022314549036573 / 2 ^ 78)) = Num 2"
  by code_simp

lemma example_product_small:
  "toNumber (of_int 3 * (3022314549036573 / 2 ^ 78)) = Num (1133367955888715 / 2 ^ 75)"
  by code_simp

lemma example_sum: "sumFCToutputs example_tx ''FA1'' = Num 2"
proof -
  have f: "filter (\<lambda>out. TransactionAddress.address out = ''FA1'') (factoidOutputs example_tx)
             = [example_out1, example_out2]"
    by (simp add: example_tx_def example_out1_def example_out2_def)
  have s: "sum_list (map amount [example_out1, example_out2]) = 200000000"
    by (simp add: example_out1_def example_out2_def)
  have h1: "\<forall>out \<in> set (filter (\<lambda>out. TransactionAddress.address out = ''FA1'')
               (factoidOutputs example_tx)). 0 \<le> amount out"
    by (simp add: f example_out1_def example_out2_def)
  have h2: "sum_list (map amount (filter (\<lambda>out. TransactionAddress.address out = ''FA1'')
               (factoidOutputs example_tx))) \<le> 2 ^ 53"
    by (simp add: f example_out1_def example_out2_def)
  from sumFCToutputs_exact[OF h1 h2] show ?thesis
    by (simp only: f s example_product)
qed

lemma example_sum_small:
  "sumFCToutputs example_tx_small ''FA1'' = Num (1133367955888715 / 2 ^ 75)"
proof -
  have f: "filter (\<lambda>out. TransactionAddress.address out = ''FA1'') (factoidOutputs example_tx_small)
             = [\<lparr> TransactionAddress.address = ''FA1'', amount = 3 \<rparr>]"
    by (simp add: example_tx_small_def)
  have s: "sum_list (map amount [\<lparr> TransactionAddress.address = ''FA1'', amount = 3 \<rparr>]) = 3"
    by simp
  have h1: "\<forall>out \<in> set (filter (\<lambda>out. TransactionAddress.address out = ''FA1'')
               (factoidOutputs example_tx_small)). 0 \<le> amount out"
    by (simp add: f)
  have h2: "sum_list (map amount (filter (\<lambda>out. TransactionAddress.address out = ''FA1'')
               (factoidOutputs example_tx_small))) \<le> 2 ^ 53"
    by (simp add: f)
  from sumFCToutputs_exact[OF h1 h2] show ?thesis
    by (simp only: f s example_product_small)
qed

text \<open>The floor of a quotient of integers is the integer quotient.\<close>

lemma toInteger_div: "toInteger (of_int a / 1000) = a div 1000"
  unfolding toInteger_def
  using floor_divide_of_int_eq[of a 1000, where ?'a = rat] by simp

lemma example_seconds: "toInteger (1577836800123 / 1000) = 1577836800"
  using toInteger_div[of 1577836800123] by simp

lemma example_format:
  "formatIncomeTransaction example_tx example_conf (Num 2) = Inr example_row"
  by (simp add: formatIncomeTransaction_def example_iso example_tx_def example_conf_def
      example_row_def example_seconds)

lemma example_save:
  "saveNewTransaction ins example_conf db example_tx =
     (case ins example_row db of
        Inserted db' \<Rightarrow> (Saved db', [Debug_Saving ''FA1'' 9])
      | Thrown e \<Rightarrow> (ProcessExit 1, [Debug_Saving ''FA1'' 9, Error_FailedToSave e])
      | Rejected e \<Rightarrow> (ReturnsRejected e, [Debug_Saving ''FA1'' 9]))"
proof -
  have f: "formatIncomeTransaction example_tx example_conf (Num 2) = Inr example_row"
    by (rule example_format)
  have a: "AddressConfig.address example_conf = ''FA1''" "coinbase example_conf"
    by (simp_all add: example_conf_def)
  have t: "totalInputs example_tx = 0" by (simp add: example_tx_def)
  have r: "TransactionRow.address example_row = ''FA1''" "height example_row = 9"
    by (simp_all add: example_row_def)
  show ?thesis
    by (simp add: saveNewTransaction_def a t example_sum f r Let_def split: insert_result.splits)
qed

section \<open>The scan pass\<close>

text \<open>
  Claim C1. With stored maximum height \<open>m\<close>, configured start height \<open>s\<close> and tip
  \<open>t\<close>, a scan pass whose fetches succeed fetches exactly the blocks at heights
  \<open>max m s + 1\<close> to \<open>t\<close>, hands exactly these blocks to the handler, both in
  increasing order of height, and returns. When \<open>max m s + 1 > t\<close> (also when the tip
  lies below the start), nothing is fetched: the pass only logs its two messages.
\<close>

theorem emitNewTransactions_range:
  assumes tip: "getHeights cli = Inr t"
    and ok: "\<forall>h. max m s < h \<and> h \<le> t \<longrightarrow> getDirectoryBlock cli h = Inr (blk h)"
  shows "fst (emitNewTransactions (Inr m) s cli) = Returns ()
         \<and> fetched (snd (emitNewTransactions (Inr m) s cli)) = [max m s + 1..t]
         \<and> handled (snd (emitNewTransactions (Inr m) s cli)) = map blk [max m s + 1..t]
         \<and> (t < max m s + 1 \<longrightarrow>
              snd (emitNewTransactions (Inr m) s cli)
                = [Log (Info_Fetching (max m s) t), Log Info_ScanComplete])"
proof -
  have st: "(if s < m then m else s) = max m s" by (simp add: max_def)
  have "\<forall>h. max m s + 1 \<le> h \<and> h \<le> t \<longrightarrow> getDirectoryBlock cli h = Inr (blk h)"
  proof (intro allI impI)
    fix h assume "max m s + 1 \<le> h \<and> h \<le> t"
    then have "max m s < h \<and> h \<le> t" by linarith
    with ok show "getDirectoryBlock cli h = Inr (blk h)" by blast
  qed
  from scan_loop_ok[OF this]
  have l: "fst (scan_loop (getDirectoryBlock cli) (max m s + 1) t) = Inr ()"
    "fetched (snd (scan_loop (getDirectoryBlock cli) (max m s + 1) t)) = [max m s + 1..t]"
    "handled (snd (scan_loop (getDirectoryBlock cli) (max m s + 1) t)) = map blk [max m s + 1..t]"
    by simp_all
  obtain r tr where rt: "scan_loop (getDirectoryBlock cli) (max m s + 1) t = (r, tr)"
    by (cases "scan_loop (getDirectoryBlock cli) (max m s + 1) t")
  with l have r: "r = Inr ()" and ftr: "fetched tr = [max m s + 1..t]"
    and htr: "handled tr = map blk [max m s + 1..t]" by simp_all
  have e: "emitNewTransactions (Inr m) s cli
            = (Returns (), Log (Info_Fetching (max m s) t) # tr @ [Log Info_ScanComplete])"
    by (simp add: emitNewTransactions_def emitNewTransactions_try_def tip st rt r)
  have z: "tr = []" if "t < max m s + 1"
    using rt scan_loop_past[OF that, of "getDirectoryBlock cli"] by simp
  show ?thesis
    using e ftr htr z by (simp add: fetched_append handled_append)
qed

text \<open>
  The theorem with stored height 100 and start height 50: at tip 103 the pass fetches
  and handles 101, 102 and 103; at tip 100 it fetches nothing.
\<close>

theorem emitNewTransactions_range_witness:
  "getHeights example_cli = Inr 103
   \<and> fst (emitNewTransactions (Inr 100) 50 example_cli) = Returns ()
   \<and> fetched (snd (emitNewTransactions (Inr 100) 50 example_cli)) = [101, 102, 103]
   \<and> handled (snd (emitNewTransactions (Inr 100) 50 example_cli)) = [101, 102, 103]
   \<and> emitNewTransactions (Inr 100) 50 (example_cli \<lparr> getHeights := Inr 100 \<rparr>)
       = (Returns (), [Log (Info_Fetching 100 100), Log Info_ScanComplete])"
proof -
  have tip: "getHeights example_cli = Inr 103" by (simp add: example_cli_def)
  have ok: "\<forall>h. max 100 50 < h \<and> h \<le> 103 \<longrightarrow> getDirectoryBlock example_cli h = Inr (id h)"
    by (simp add: example_cli_def)
  have up: "[max 100 50 + 1..103] = [101, 102, 103::int]" by (simp add: upto_rec1)
  have tip': "getHeights (example_cli \<lparr> getHeights := Inr 100 \<rparr>) = Inr 100" by simp
  have ok': "\<forall>h. max 100 50 < h \<and> h \<le> 100 \<longrightarrow>
               getDirectoryBlock (example_cli \<lparr> getHeights := Inr 100 \<rparr>) h = Inr (id h)"
    by (simp add: example_cli_def)
  have a: "fst (emitNewTransactions (Inr 100) 50 example_cli) = Returns ()
      \<and> fetched (snd (emitNewTransactions (Inr 100) 50 example_cli)) = [101, 102, 103]
      \<and> handled (snd (emitNewTransactions (Inr 100) 50 example_cli)) = [101, 102, 103]"
    using emitNewTransactions_range[OF tip ok] up by simp
  have b: "emitNewTransactions (Inr 100) 50 (example_cli \<lparr> getHeights := Inr 100 \<rparr>)
       = (Returns (), [Log (Info_Fetching 100 100), Log Info_ScanComplete])"
    using emitNewTransactions_range[OF tip' ok'] by (simp add: prod_eq_iff)
  from tip a b show ?thesis by simp
qed

text \<open>
  Claim C7 states that a block fetch failing with \<open>NotFound\<close> ends the pass as
  caught up, without fatal termination. In the source every exception of the pass is
  caught by the one \<open>catch\<close>, which logs a fatal error and calls
  \<open>process.exit(1)\<close>. With stored height 100, start height 50, tip 103 and the block
  at 102 not found, the pass exits with code 1 after handling block 101.
\<close>

theorem notFound_is_fatal_counterexample:
  "emitNewTransactions (Inr 100) 50 example_cli_notfound =
     (Exits 1, [Log (Info_Fetching 100 103), Fetch 101, Handle 101, Fetch 102,
                Log (Error_Backfill NotFound)])"
  by (simp add: emitNewTransactions_def emitNewTransactions_try_def example_cli_notfound_def
      scan_loop.simps)

text \<open>
  Claim C7, amended. When a block fetch of the pass fails, with \<open>NotFound\<close> or with
  any other error, the pass stops there: the blocks below the failing height have
  been fetched and handled in order, the failing height is fetched and not handled,
  no higher block is fetched, the fatal error is the last thing logged and the
  process ends with exit code 1.
\<close>

theorem fetch_failure_is_fatal:
  assumes "getHeights cli = Inr t"
    and "max m s < h" and "h \<le> t"
    and "\<forall>k. max m s < k \<and> k < h \<longrightarrow> getDirectoryBlock cli k = Inr (blk k)"
    and "getDirectoryBlock cli h = Inl e"
  shows "fst (emitNewTransactions (Inr m) s cli) = Exits 1
         \<and> fetched (snd (emitNewTransactions (Inr m) s cli)) = [max m s + 1..h]
         \<and> handled (snd (emitNewTransactions (Inr m) s cli)) = map blk [max m s + 1..h - 1]
         \<and> last (snd (emitNewTransactions (Inr m) s cli)) = Log (Error_Backfill e)"
  using assms by (rule emit_fetch_failure)

text \<open>
  The amended claim at the example client whose block at 102 is not found.
\<close>

theorem fetch_failure_is_fatal_witness:
  "getHeights example_cli_notfound = Inr 103
   \<and> max 100 50 < (102::int) \<and> (102::int) \<le> 103
   \<and> getDirectoryBlock example_cli_notfound 101 = Inr 101
   \<and> getDirectoryBlock example_cli_notfound 102 = Inl NotFound
   \<and> fst (emitNewTransactions (Inr 100) 50 example_cli_notfound) = Exits 1
   \<and> fetched (snd (emitNewTransactions (Inr 100) 50 example_cli_notfound)) = [101, 102]
   \<and> handled (snd (emitNewTransactions (Inr 100) 50 example_cli_notfound)) = [101]
   \<and> last (snd (emitNewTransactions (Inr 100) 50 example_cli_notfound))
       = Log (Error_Backfill NotFound)"
proof -
  have tip: "getHeights example_cli_notfound = Inr 103" by (simp add: example_cli_notfound_def)
  have h: "max 100 50 < (102::int)" "(102::int) \<le> 103" by simp_all
  have ok: "\<forall>k. max 100 50 < k \<and> k < 102 \<longrightarrow> getDirectoryBlock example_cli_notfound k = Inr (id k)"
    by (simp add: example_cli_notfound_def)
  have bad: "getDirectoryBlock example_cli_notfound 102 = Inl NotFound"
    by (simp add: example_cli_notfound_def)
  have up: "[max 100 50 + 1..102] = [101, 102::int]" "[max 100 50 + 1..102 - 1] = [101::int]"
    by (simp_all add: upto_rec1)
  show ?thesis
    using fetch_failure_is_fatal[OF tip h ok bad] tip ok bad up by simp
qed

section \<open>Classifying and saving a transaction\<close>

text \<open>
  Claim C2. A transaction counts as coinbase exactly when \<open>totalInputs\<close> is 0. When
  it is coinbase and the address does not record coinbase receipts, or it is not
  coinbase and the address does not record other receipts, \<open>saveNewTransaction\<close>
  returns at once: nothing is handed to the store and nothing is logged. A
  transaction that passes this filter goes on to the amount: from there the call
  returns without a record exactly when the received amount is 0.
\<close>

theorem saveNewTransaction_filter:
  "((totalInputs tx = 0 \<and> \<not> coinbase conf) \<or> (totalInputs tx \<noteq> 0 \<and> \<not> nonCoinbase conf)
      \<longrightarrow> saveNewTransaction ins conf db tx = (Skipped, []))
   \<and> (\<not> ((totalInputs tx = 0 \<and> \<not> coinbase conf) \<or> (totalInputs tx \<noteq> 0 \<and> \<not> nonCoinbase conf))
      \<longrightarrow> (fst (saveNewTransaction ins conf db tx) = Skipped
            \<longleftrightarrow> sumFCToutputs tx (AddressConfig.address conf) = Num 0))"
  by (auto simp: saveNewTransaction_def Let_def split: sum.splits insert_result.splits)

text \<open>
  The theorem at the example address (coinbase receipts only): the example
  transaction with three inputs is skipped, the coinbase one is not.
\<close>

theorem saveNewTransaction_filter_witness:
  "totalInputs (example_tx \<lparr> totalInputs := 3 \<rparr>) \<noteq> 0 \<and> \<not> nonCoinbase example_conf
   \<and> saveNewTransaction append_store example_conf [] (example_tx \<lparr> totalInputs := 3 \<rparr>) = (Skipped, [])
   \<and> totalInputs example_tx = 0 \<and> coinbase example_conf
   \<and> sumFCToutputs example_tx (AddressConfig.address example_conf) \<noteq> Num 0
   \<and> fst (saveNewTransaction append_store example_conf [] example_tx) \<noteq> Skipped"
proof -
  have c: "coinbase example_conf" "\<not> nonCoinbase example_conf"
    "AddressConfig.address example_conf = ''FA1''"
    by (simp_all add: example_conf_def)
  have t: "totalInputs example_tx = 0" "totalInputs (example_tx \<lparr> totalInputs := 3 \<rparr>) \<noteq> 0"
    by (simp_all add: example_tx_def)
  show ?thesis
    using saveNewTransaction_filter[where tx = "example_tx \<lparr> totalInputs := 3 \<rparr>"
        and conf = example_conf and ins = append_store and db = "[]"]
      saveNewTransaction_filter[where tx = example_tx
        and conf = example_conf and ins = append_store and db = "[]"]
      c t example_sum
    by simp
qed

text \<open>
  Claim C3 gives the received amount as the sum of the matching outputs times
  \<open>10\<^sup>-\<^sup>8\<close>. In the source the sum is a number and is multiplied by the number
  \<open>Math.pow(10, -8)\<close>, and the product is rounded to a double. For a single output of
  3 base units the received amount is \<open>1133367955888715 / 2\<^sup>7\<^sup>5\<close>, printed as
  \<open>3.0000000000000004e-8\<close>, and not \<open>3 / 10\<^sup>8\<close>.
\<close>

theorem scaled_sum_counterexample:
  "sum_list (map amount
      (filter (\<lambda>out. TransactionAddress.address out = ''FA1'') (factoidOutputs example_tx_small))) = 3
   \<and> sumFCToutputs example_tx_small ''FA1'' = Num (1133367955888715 / 2 ^ 75)
   \<and> sumFCToutputs example_tx_small ''FA1'' \<noteq> Num (of_int 3 / 10 ^ 8)"
  by (simp add: example_sum_small) (simp add: example_tx_small_def)

text \<open>
  Claim C3, amended. When the outputs to the configured address have non-negative
  amounts whose sum is at most \<open>2\<^sup>5\<^sup>3\<close>, the received amount is the double product of
  that sum with the double \<open>Math.pow(10, -8)\<close>; it is a number within a relative
  error of \<open>2\<^sup>-\<^sup>5\<^sup>1\<close> of the sum times \<open>10\<^sup>-\<^sup>8\<close>. A transaction whose outputs to the
  configured address are two such amounts, of a sum other than 0, and which passes
  the coinbase filter, hands one row to the store, and the row's \<open>receivedFCT\<close> is
  that product for the sum of both amounts.
\<close>

theorem sumFCToutputs_rounded:
  "((\<forall>out \<in> set (filter (\<lambda>out. TransactionAddress.address out = a) (factoidOutputs tx)). 0 \<le> amount out) \<and> sum_list (map amount (filter (\<lambda>out. TransactionAddress.address out = a) (factoidOutputs tx))) \<le> 2 ^ 53
      \<longrightarrow> sumFCToutputs tx a = nmul (Num (of_int (sum_list (map amount (filter (\<lambda>out. TransactionAddress.address out = a) (factoidOutputs tx)))))) Math_pow_10_neg8
          \<and> (\<exists>r. sumFCToutputs tx a = Num r
                 \<and> \<bar>r - of_int (sum_list (map amount (filter (\<lambda>out. TransactionAddress.address out = a) (factoidOutputs tx)))) / 10 ^ 8\<bar> \<le> (of_int (sum_list (map amount (filter (\<lambda>out. TransactionAddress.address out = a) (factoidOutputs tx)))) / 10 ^ 8) / 2 ^ 51))
   \<and> (\<not> ((totalInputs tx = 0 \<and> \<not> coinbase conf) \<or> (totalInputs tx \<noteq> 0 \<and> \<not> nonCoinbase conf))
       \<and> filter (\<lambda>out. TransactionAddress.address out = AddressConfig.address conf)
            (factoidOutputs tx) = [o1, o2]
       \<and> 0 \<le> amount o1 \<and> 0 \<le> amount o2
       \<and> amount o1 + amount o2 \<noteq> 0 \<and> amount o1 + amount o2 \<le> 2 ^ 53
       \<and> formatIncomeTransaction tx conf
            (nmul (Num (of_int (amount o1 + amount o2))) Math_pow_10_neg8) = Inr txRow
      \<longrightarrow> receivedFCT txRow = nmul (Num (of_int (amount o1 + amount o2))) Math_pow_10_neg8
          \<and> saveNewTransaction ins conf db tx =
              (case ins txRow db of
                 Inserted db' \<Rightarrow>
                   (Saved db', [Debug_Saving (TransactionRow.address txRow) (height txRow)])
               | Thrown e \<Rightarrow>
                   (ProcessExit 1,
                    [Debug_Saving (TransactionRow.address txRow) (height txRow),
                     Error_FailedToSave e])
               | Rejected e \<Rightarrow>
                   (ReturnsRejected e,
                    [Debug_Saving (TransactionRow.address txRow) (height txRow)])))"
proof -
  have m: "nmul (Num (of_int n)) Math_pow_10_neg8
             = toNumber (of_int n * (3022314549036573 / 2 ^ 78))" for n
    by (simp add: Math_pow_value)
  have s: "sumFCToutputs tx a = nmul (Num (of_int (sum_list (map amount (filter (\<lambda>out. TransactionAddress.address out = a) (factoidOutputs tx)))))) Math_pow_10_neg8"
    if "\<forall>out \<in> set (filter (\<lambda>out. TransactionAddress.address out = a) (factoidOutputs tx)). 0 \<le> amount out" and "sum_list (map amount (filter (\<lambda>out. TransactionAddress.address out = a) (factoidOutputs tx))) \<le> 2 ^ 53" for a
    using sumFCToutputs_exact[OF that] by (simp only: m)
  have b: "\<exists>r. nmul (Num (of_int n)) Math_pow_10_neg8 = Num r \<and> (n \<noteq> 0 \<longrightarrow> r \<noteq> 0)
             \<and> \<bar>r - of_int n / 10 ^ 8\<bar> \<le> (of_int n / 10 ^ 8) / 2 ^ 51"
    if "0 \<le> n" and "n \<le> 2 ^ 53" for n
  proof (cases "n = 0")
    case True
    then show ?thesis by (simp add: Math_pow_value toNumber_0)
  next
    case False
    with that have "1 \<le> n" by simp
    from scaled_error[OF this that(2)] show ?thesis
      unfolding m by auto
  qed
  have e: "\<exists>r. sumFCToutputs tx a = Num r
                 \<and> \<bar>r - of_int (sum_list (map amount (filter (\<lambda>out. TransactionAddress.address out = a) (factoidOutputs tx)))) / 10 ^ 8\<bar> \<le> (of_int (sum_list (map amount (filter (\<lambda>out. TransactionAddress.address out = a) (factoidOutputs tx)))) / 10 ^ 8) / 2 ^ 51"
    if h: "\<forall>out \<in> set (filter (\<lambda>out. TransactionAddress.address out = a) (factoidOutputs tx)). 0 \<le> amount out" "sum_list (map amount (filter (\<lambda>out. TransactionAddress.address out = a) (factoidOutputs tx))) \<le> 2 ^ 53" for a
  proof -
    have "0 \<le> sum_list (map amount (filter (\<lambda>out. TransactionAddress.address out = a) (factoidOutputs tx)))" using h(1) by (intro sum_list_nonneg) auto
    from b[OF this h(2)] show ?thesis unfolding s[OF h] by blast
  qed
  have r: "receivedFCT txRow = received"
    if "formatIncomeTransaction tx conf received = Inr txRow" for received
    using that by (auto simp: formatIncomeTransaction_def split: sum.splits)
  have t: "saveNewTransaction ins conf db tx =
              (case ins txRow db of
                 Inserted db' \<Rightarrow>
                   (Saved db', [Debug_Saving (TransactionRow.address txRow) (height txRow)])
               | Thrown e \<Rightarrow>
                   (ProcessExit 1,
                    [Debug_Saving (TransactionRow.address txRow) (height txRow),
                     Error_FailedToSave e])
               | Rejected e \<Rightarrow>
                   (ReturnsRejected e,
                    [Debug_Saving (TransactionRow.address txRow) (height txRow)]))"
    if p: "\<not> ((totalInputs tx = 0 \<and> \<not> coinbase conf) \<or> (totalInputs tx \<noteq> 0 \<and> \<not> nonCoinbase conf))"
      and f: "filter (\<lambda>out. TransactionAddress.address out = AddressConfig.address conf)
            (factoidOutputs tx) = [o1, o2]"
      and nn: "0 \<le> amount o1" "0 \<le> amount o2"
      and nz: "amount o1 + amount o2 \<noteq> 0" and le: "amount o1 + amount o2 \<le> 2 ^ 53"
      and fm: "formatIncomeTransaction tx conf
            (nmul (Num (of_int (amount o1 + amount o2))) Math_pow_10_neg8) = Inr txRow"
  proof -
    have v: "sumFCToutputs tx (AddressConfig.address conf)
               = nmul (Num (of_int (amount o1 + amount o2))) Math_pow_10_neg8"
      using s[of "AddressConfig.address conf"] nn le by (simp add: f)
    have "0 \<le> amount o1 + amount o2" using nn by simp
    from b[OF this le] nz have nz': "sumFCToutputs tx (AddressConfig.address conf) \<noteq> Num 0"
      unfolding v by auto
    from fm have fm': "formatIncomeTransaction tx conf
        (sumFCToutputs tx (AddressConfig.address conf)) = Inr txRow"
      by (simp only: v)
    from p nz' fm' show ?thesis
      by (simp add: saveNewTransaction_def Let_def split: insert_result.splits)
  qed
  from s e r t show ?thesis by blast
qed

text \<open>
  The amended claim at the example transaction: outputs of 150000000 and 50000000
  base units to the address give one row, with amount 2. At the single output of 3
  base units the product is rounded, within the stated error.
\<close>

theorem sumFCToutputs_rounded_witness:
  "sumFCToutputs example_tx ''FA1'' = nmul (Num 200000000) Math_pow_10_neg8
   \<and> sumFCToutputs example_tx ''FA1'' = Num 2
   \<and> filter (\<lambda>out. TransactionAddress.address out = AddressConfig.address example_conf)
        (factoidOutputs example_tx) = [example_out1, example_out2]
   \<and> amount example_out1 + amount example_out2 = 200000000
   \<and> formatIncomeTransaction example_tx example_conf (Num 2) = Inr example_row
   \<and> receivedFCT example_row = Num 2
   \<and> saveNewTransaction append_store example_conf [] example_tx
       = (Saved [example_row], [Debug_Saving ''FA1'' 9])
   \<and> sumFCToutputs example_tx_small ''FA1'' = nmul (Num 3) Math_pow_10_neg8
   \<and> sumFCToutputs example_tx_small ''FA1'' = Num (1133367955888715 / 2 ^ 75)
   \<and> \<bar>1133367955888715 / 2 ^ 75 - 3 / 10 ^ 8\<bar> \<le> ((3 / 10 ^ 8) / 2 ^ 51 :: rat)"
proof -
  have c: "coinbase example_conf" "\<not> nonCoinbase example_conf"
    "AddressConfig.address example_conf = ''FA1''"
    by (simp_all add: example_conf_def)
  have t: "totalInputs example_tx = 0" by (simp add: example_tx_def)
  have f: "filter (\<lambda>out. TransactionAddress.address out = ''FA1'') (factoidOutputs example_tx)
             = [example_out1, example_out2]"
    by (simp add: example_tx_def example_out1_def example_out2_def)
  have a: "amount example_out1 = 150000000" "amount example_out2 = 50000000"
    by (simp_all add: example_out1_def example_out2_def)
  have p: "nmul (Num 200000000) Math_pow_10_neg8 = Num 2"
    using example_product by (simp add: Math_pow_value)
  have r: "TransactionRow.address example_row = ''FA1''" "height example_row = 9"
    by (simp_all add: example_row_def)
  have big: "sumFCToutputs example_tx ''FA1'' = nmul (Num 200000000) Math_pow_10_neg8
   \<and> sumFCToutputs example_tx ''FA1'' = Num 2
   \<and> filter (\<lambda>out. TransactionAddress.address out = AddressConfig.address example_conf)
        (factoidOutputs example_tx) = [example_out1, example_out2]
   \<and> amount example_out1 + amount example_out2 = 200000000
   \<and> formatIncomeTransaction example_tx example_conf (Num 2) = Inr example_row
   \<and> receivedFCT example_row = Num 2
   \<and> saveNewTransaction append_store example_conf [] example_tx
       = (Saved [example_row], [Debug_Saving ''FA1'' 9])"
    using sumFCToutputs_rounded[where tx = example_tx and a = "''FA1''" and conf = example_conf
        and ?o1.0 = example_out1 and ?o2.0 = example_out2 and txRow = example_row
        and ins = append_store and db = "[]"]
      c t f a p r example_format example_sum
    by (simp add: append_store_def)
  have fs: "filter (\<lambda>out. TransactionAddress.address out = ''FA1'') (factoidOutputs example_tx_small)
             = [\<lparr> TransactionAddress.address = ''FA1'', amount = 3 \<rparr>]"
    by (simp add: example_tx_small_def)
  have small: "sumFCToutputs example_tx_small ''FA1'' = nmul (Num 3) Math_pow_10_neg8
   \<and> \<bar>1133367955888715 / 2 ^ 75 - 3 / 10 ^ 8\<bar> \<le> ((3 / 10 ^ 8) / 2 ^ 51 :: rat)"
    using sumFCToutputs_rounded[where tx = example_tx_small and a = "''FA1''"
        and conf = example_conf and ?o1.0 = example_out1 and ?o2.0 = example_out2
        and txRow = example_row and ins = append_store and db = "[]", THEN conjunct1]
    by (auto simp: fs example_sum_small)
  from big small example_sum_small show ?thesis by blast
qed

text \<open>
  Claim C4. When the received amount is 0, and in particular when no output of the
  transaction is addressed to the configured address, \<open>saveNewTransaction\<close> returns
  without handing a row to the store.
\<close>

theorem zero_receipt_is_skipped:
  "(sumFCToutputs tx (AddressConfig.address conf) = Num 0
      \<longrightarrow> saveNewTransaction ins conf db tx = (Skipped, []))
   \<and> ((\<forall>out \<in> set (factoidOutputs tx). TransactionAddress.address out \<noteq> AddressConfig.address conf)
      \<longrightarrow> sumFCToutputs tx (AddressConfig.address conf) = Num 0
          \<and> saveNewTransaction ins conf db tx = (Skipped, []))"
proof -
  have a: "saveNewTransaction ins conf db tx = (Skipped, [])"
    if "sumFCToutputs tx (AddressConfig.address conf) = Num 0"
    using that by (simp add: saveNewTransaction_def Let_def)
  have b: "sumFCToutputs tx (AddressConfig.address conf) = Num 0"
    if "\<forall>out \<in> set (factoidOutputs tx). TransactionAddress.address out \<noteq> AddressConfig.address conf"
  proof -
    from that have "filter (\<lambda>out. TransactionAddress.address out = AddressConfig.address conf)
                      (factoidOutputs tx) = []"
      by (simp add: filter_empty_conv)
    then show ?thesis by (simp add: sumFCToutputs_def Math_pow_value toNumber_0)
  qed
  from a b show ?thesis by blast
qed

text \<open>
  The theorem at the example transaction and an address that none of its outputs
  names.
\<close>

theorem zero_receipt_is_skipped_witness:
  "sumFCToutputs example_tx (AddressConfig.address (example_conf \<lparr> AddressConfig.address := ''FA3'' \<rparr>)) = Num 0
   \<and> saveNewTransaction append_store (example_conf \<lparr> AddressConfig.address := ''FA3'' \<rparr>) [] example_tx
       = (Skipped, [])"
proof -
  have n: "\<forall>out \<in> set (factoidOutputs example_tx).
             TransactionAddress.address out
               \<noteq> AddressConfig.address (example_conf \<lparr> AddressConfig.address := ''FA3'' \<rparr>)"
    by (simp add: example_tx_def example_out1_def example_out2_def)
  show ?thesis
    using zero_receipt_is_skipped[where tx = example_tx
        and conf = "example_conf \<lparr> AddressConfig.address := ''FA3'' \<rparr>"
        and ins = append_store and db = "[]"] n
    by blast
qed

text \<open>
  Claim C5. Whenever \<open>saveNewTransaction\<close> saves a row, the row handed to the store
  has as timestamp the floor of the transaction's millisecond timestamp divided by
  1000, as date the ISO rendering of that same millisecond instant, as height the
  directory block height of the transaction's block, the symbol \<open>FCT\<close>, and the
  currency of the address configuration (and the configured address, the
  transaction's id and the received amount).
\<close>

theorem emitted_row_fields:
  assumes "saveNewTransaction ins conf db tx = (Saved db', lg)"
  shows "\<exists>row. ins row db = Inserted db'
           \<and> TransactionRow.timestamp row = \<lfloor>(of_int (Transaction.timestamp tx) :: rat) / 1000\<rfloor>
           \<and> toISOString (Transaction.timestamp tx) = Inr (date row)
           \<and> height row = directoryBlockHeight (blockContext tx)
           \<and> symbol row = ''FCT''
           \<and> TransactionRow.currency row = AddressConfig.currency conf
           \<and> TransactionRow.address row = AddressConfig.address conf
           \<and> txhash row = idT tx
           \<and> receivedFCT row = sumFCToutputs tx (AddressConfig.address conf)"
  using assms
  by (auto simp: saveNewTransaction_def formatIncomeTransaction_def toInteger_def Let_def
      split: if_splits sum.splits insert_result.splits)

text \<open>
  The theorem at the example transaction and address.
\<close>

theorem emitted_row_fields_witness:
  "saveNewTransaction append_store example_conf [] example_tx
     = (Saved [example_row], [Debug_Saving ''FA1'' 9])
   \<and> (\<exists>row. append_store row [] = Inserted [example_row]
         \<and> TransactionRow.timestamp row = \<lfloor>(of_int (Transaction.timestamp example_tx) :: rat) / 1000\<rfloor>
         \<and> toISOString (Transaction.timestamp example_tx) = Inr (date row)
         \<and> height row = directoryBlockHeight (blockContext example_tx)
         \<and> symbol row = ''FCT''
         \<and> TransactionRow.currency row = AddressConfig.currency example_conf
         \<and> TransactionRow.address row = AddressConfig.address example_conf
         \<and> txhash row = idT example_tx
         \<and> receivedFCT row = sumFCToutputs example_tx (AddressConfig.address example_conf))"
proof -
  have s: "saveNewTransaction append_store example_conf [] example_tx
             = (Saved [example_row], [Debug_Saving ''FA1'' 9])"
    by (simp add: example_save append_store_def)
  from emitted_row_fields[OF s] s show ?thesis by blast
qed




section \<open>Reading the configuration\<close>

lemma Config_new_exit:
  "Config_try rd ld vl p = Inl e \<Longrightarrow>
     fst (Config_new rd ld vl p) = Exits 1
     \<and> take 3 (snd (Config_new rd ld vl p))
         = [Info_ReadingConfig p, Error_Message ''Unable to load config'', Error_Message (message e)]"
  by (simp add: Config_new_def)

text \<open>
  Claim C10 states that a file that is readable, parses, validates and does not
  enable bitcoin.tax without its key and secret yields a \<open>Config\<close> with the validated
  fields. The schema does not require \<open>keys\<close>, and the constructor reads
  \<open>value.keys.bitcoinTax\<close>: for a validated value without \<open>keys\<close> this throws inside
  the \<open>try\<close>, and the process exits with code 1.
\<close>

theorem missing_keys_counterexample:
  "ConfigValue.keys example_value_nokeys = None
   \<and> Config_new (\<lambda>p. Inr ''addresses: []'') (\<lambda>s. Inr ()) (\<lambda>c. (example_value_nokeys, None)) ''config.yml''
       = (Exits 1,
          [Info_ReadingConfig ''config.yml'', Error_Message ''Unable to load config'',
           Error_Message ''Cannot read property bitcoinTax of undefined''])"
  by (simp add: Config_new_def Config_try_def example_value_nokeys_def)

text \<open>
  Claim C10, amended. Constructing a \<open>Config\<close> never lets an exception reach the
  caller. When the file cannot be read, when the YAML does not parse, when the
  validation gives an error, or when bitcoin.tax is enabled and its secret or its key
  is missing, the constructor logs \<open>Unable to load config\<close> and the error's message,
  and ends the process with exit code 1. Otherwise, when the validated value has a
  \<open>keys\<close> section, the constructed instance's \<open>factomd\<close>, \<open>addresses\<close>, \<open>keys\<close> and
  \<open>options\<close> are those of the validated value.
\<close>

theorem Config_new_outcomes:
  "(\<forall>e. fst (Config_new rd ld vl p) \<noteq> Throws e)
   \<and> (rd p = Inl e
        \<or> (rd p = Inr y \<and> ld y = Inl e)
        \<or> (rd p = Inr y \<and> ld y = Inr c \<and> vl c = (v, Some e))
        \<or> (rd p = Inr y \<and> ld y = Inr c \<and> vl c = (v, None) \<and> ConfigValue.keys v = Some k
            \<and> bitcoinTax k \<and> (falsy (bitcoinTaxSecret k) \<or> falsy (bitcoinTaxKey k))
            \<and> e = Error ''Must provide bitcoin.tax secret and key when bitoinTax true'')
      \<longrightarrow> fst (Config_new rd ld vl p) = Exits 1
          \<and> take 3 (snd (Config_new rd ld vl p))
              = [Info_ReadingConfig p, Error_Message ''Unable to load config'',
                 Error_Message (message e)])
   \<and> (rd p = Inr y \<and> ld y = Inr c \<and> vl c = (v, None) \<and> ConfigValue.keys v = Some k
        \<and> \<not> (bitcoinTax k \<and> (falsy (bitcoinTaxSecret k) \<or> falsy (bitcoinTaxKey k)))
      \<longrightarrow> Config_new rd ld vl p
            = (Returns \<lparr> Config.factomd = ConfigValue.factomd v,
                         Config.addresses = ConfigValue.addresses v,
                         Config.options = ConfigValue.options v,
                         Config.keys = k \<rparr>,
               [Info_ReadingConfig p]))"
proof -
  have a: "\<forall>e. fst (Config_new rd ld vl p) \<noteq> Throws e"
    by (simp add: Config_new_def split: sum.splits)
  have b: "fst (Config_new rd ld vl p) = Exits 1
          \<and> take 3 (snd (Config_new rd ld vl p))
              = [Info_ReadingConfig p, Error_Message ''Unable to load config'',
                 Error_Message (message e)]"
    if "rd p = Inl e
        \<or> (rd p = Inr y \<and> ld y = Inl e)
        \<or> (rd p = Inr y \<and> ld y = Inr c \<and> vl c = (v, Some e))
        \<or> (rd p = Inr y \<and> ld y = Inr c \<and> vl c = (v, None) \<and> ConfigValue.keys v = Some k
            \<and> bitcoinTax k \<and> (falsy (bitcoinTaxSecret k) \<or> falsy (bitcoinTaxKey k))
            \<and> e = Error ''Must provide bitcoin.tax secret and key when bitoinTax true'')"
  proof -
    from that have "Config_try rd ld vl p = Inl e"
      by (auto simp: Config_try_def)
    then show ?thesis by (rule Config_new_exit)
  qed
  have c: "Config_new rd ld vl p
            = (Returns \<lparr> Config.factomd = ConfigValue.factomd v,
                         Config.addresses = ConfigValue.addresses v,
                         Config.options = ConfigValue.options v,
                         Config.keys = k \<rparr>,
               [Info_ReadingConfig p])"
    if "rd p = Inr y \<and> ld y = Inr c \<and> vl c = (v, None) \<and> ConfigValue.keys v = Some k
        \<and> \<not> (bitcoinTax k \<and> (falsy (bitcoinTaxSecret k) \<or> falsy (bitcoinTaxKey k)))"
    using that by (auto simp: Config_new_def Config_try_def)
  from a b c show ?thesis by blast
qed

text \<open>
  The amended claim at a missing file, at the example value with its \<open>keys\<close>
  section, and at the same value with bitcoin.tax enabled and no secret.
\<close>

theorem Config_new_outcomes_witness:
  "Config_new (\<lambda>p. Inl (SystemError ''ENOENT'' ''no such file or directory'')) (\<lambda>s. Inr ())
       (\<lambda>c. (example_value, None)) ''config.yml''
     = (Exits 1,
        [Info_ReadingConfig ''config.yml'', Error_Message ''Unable to load config'',
         Error_Message ''no such file or directory'',
         Error_Message ''Did you init the config? See --help for more info.''])
   \<and> ConfigValue.keys example_value = Some example_keys
   \<and> \<not> bitcoinTax example_keys
   \<and> Config_new (\<lambda>p. Inr ''addresses: []'') (\<lambda>s. Inr ()) (\<lambda>c. (example_value, None)) ''config.yml''
     = (Returns \<lparr> Config.factomd = ConfigValue.factomd example_value,
                  Config.addresses = ConfigValue.addresses example_value,
                  Config.options = ConfigValue.options example_value,
                  Config.keys = example_keys \<rparr>,
        [Info_ReadingConfig ''config.yml''])
   \<and> fst (Config_new (\<lambda>p. Inr ''addresses: []'') (\<lambda>s. Inr ())
          (\<lambda>c. (example_value \<lparr> ConfigValue.keys := Some (example_keys \<lparr> bitcoinTax := True \<rparr>) \<rparr>, None))
          ''config.yml'') = Exits 1"
proof -
  have k: "ConfigValue.keys example_value = Some example_keys" "\<not> bitcoinTax example_keys"
    by (simp_all add: example_value_def example_keys_def)
  have k2: "bitcoinTax (example_keys \<lparr> bitcoinTax := True \<rparr>)"
    "falsy (bitcoinTaxSecret (example_keys \<lparr> bitcoinTax := True \<rparr>))"
    by (simp_all add: example_keys_def falsy_def)
  have e: "Config_new (\<lambda>p. Inl (SystemError ''ENOENT'' ''no such file or directory'')) (\<lambda>s. Inr ())
       (\<lambda>c. (example_value, None)) ''config.yml''
     = (Exits 1,
        [Info_ReadingConfig ''config.yml'', Error_Message ''Unable to load config'',
         Error_Message ''no such file or directory'',
         Error_Message ''Did you init the config? See --help for more info.''])"
    by (simp add: Config_new_def Config_try_def)
  show ?thesis
    using Config_new_outcomes[where rd = "\<lambda>p. Inr ''addresses: []''" and ld = "\<lambda>s. Inr ()"
        and vl = "\<lambda>c. (example_value, None)" and p = "''config.yml''"
        and y = "''addresses: []''" and c = "()" and v = example_value and k = example_keys]
      Config_new_outcomes[where rd = "\<lambda>p. Inr ''addresses: []''" and ld = "\<lambda>s. Inr ()"
        and vl = "\<lambda>c. (example_value \<lparr> ConfigValue.keys := Some (example_keys \<lparr> bitcoinTax := True \<rparr>) \<rparr>, None)"
        and p = "''config.yml''"
        and y = "''addresses: []''" and c = "()"
        and v = "example_value \<lparr> ConfigValue.keys := Some (example_keys \<lparr> bitcoinTax := True \<rparr>) \<rparr>"
        and k = "example_keys \<lparr> bitcoinTax := True \<rparr>"
        and e = "Error ''Must provide bitcoin.tax secret and key when bitoinTax true''"]
      k k2 e
    by simp
qed

end
